theory Spec2Isabelle
  imports Main "HOL-Library.Char_ord" "HOL-Library.List_Lexorder" "HOL-Library.Product_Lexorder"
    "HOL-Library.Multiset"
begin

section \<open>Data model\<close>

text \<open>
  The embedding follows \<^verbatim>\<open>jiraUI_ENG_pub_v1.2.py\<close>. Strings are byte lists, so the
  model covers ASCII text; Python compares strings by code point, which is the lexicographic
  order on \<^typ>\<open>char list\<close> used here. A Python exception is a value carrying its message
  (what \<^verbatim>\<open>str(e)\<close> prints); a call to the remote service answers \<open>Inl e\<close> when it raises.
\<close>

datatype exn = Exception (str: string)

type_synonym 'a result = "exn + 'a"

text \<open>An issue object returned by the remote service has \<^verbatim>\<open>fields\<close>; the
  \<^verbatim>\<open>DummyTicket\<close> built at startup has only a \<^verbatim>\<open>key\<close>.\<close>

record issue_fields =
  summary :: string
  description :: "string option"

record ticket =
  key :: string
  fields_attr :: "issue_fields option"

text \<open>A user resource: \<^verbatim>\<open>hasattr(u, "displayName")\<close> is \<open>displayName u \<noteq> None\<close>.\<close>

record user =
  displayName :: "string option"
  name :: "string option"

record comment =
  created :: string
  author :: user
  body :: string

datatype messagebox =
  showerror string string
| showinfo string string
| showwarning string string

text \<open>The part of \<^verbatim>\<open>JiraUI\<close> the operations read and write. \<open>jira\<close> tells whether
  \<^verbatim>\<open>self.jira\<close> holds a connection, \<open>ticket_list\<close> is the content of the list box,
  \<open>text_display\<close> the tagged segments of the text panel, and \<open>messages\<close> the dialogs shown so
  far, oldest first.\<close>

record jira_ui =
  current_page :: int
  tickets :: "ticket list"
  jira :: bool
  locked_tickets :: "string set"
  ticket_list :: "string list"
  text_display :: "(string \<times> string) list"
  messages :: "messagebox list"

section \<open>String helpers of the Python runtime\<close>

definition newline :: string where
  "newline = [CHR 0x0A]"

definition isspace :: "char \<Rightarrow> bool" where
  "isspace c \<longleftrightarrow> c \<in> {CHR 0x09, CHR 0x0A, CHR 0x0B, CHR 0x0C, CHR 0x0D,
                       CHR 0x1C, CHR 0x1D, CHR 0x1E, CHR 0x1F, CHR 0x20}"

definition isalpha :: "char \<Rightarrow> bool" where
  "isalpha c \<longleftrightarrow> c \<in> set ''ABCDEFGHIJKLMNOPQRSTUVWXYZabcdefghijklmnopqrstuvwxyz''"

definition isdigit :: "char \<Rightarrow> bool" where
  "isdigit c \<longleftrightarrow> c \<in> set ''0123456789''"

text \<open>\<^verbatim>\<open>s.strip()\<close>, \<^verbatim>\<open>s.rstrip("*")\<close>, \<^verbatim>\<open>s.endswith("*")\<close>.\<close>

definition rstrip_chars :: "(char \<Rightarrow> bool) \<Rightarrow> string \<Rightarrow> string" where
  "rstrip_chars P s = rev (dropWhile P (rev s))"

definition strip :: "string \<Rightarrow> string" where
  "strip s = rstrip_chars isspace (dropWhile isspace s)"

definition rstrip_star :: "string \<Rightarrow> string" where
  "rstrip_star s = rstrip_chars (\<lambda>c. c = CHR ''*'') s"

definition endswith_star :: "string \<Rightarrow> bool" where
  "endswith_star s \<longleftrightarrow> s \<noteq> [] \<and> last s = CHR ''*''"

text \<open>\<^verbatim>\<open>s.split(c)\<close>: the pieces between the occurrences of \<open>c\<close>, never an empty list.\<close>

fun split_on :: "char \<Rightarrow> string \<Rightarrow> string list" where
  "split_on c [] = [[]]"
| "split_on c (x # xs) =
     (if x = c then [] # split_on c xs
      else (case split_on c xs of [] \<Rightarrow> [[x]] | p # ps \<Rightarrow> (x # p) # ps))"

text \<open>\<^verbatim>\<open>int(s)\<close> on a string: surrounding whitespace is dropped, one sign is allowed, and the
  digits may be grouped by single underscores. \<open>None\<close> stands for \<^verbatim>\<open>ValueError\<close>.\<close>

fun digit_groups :: "string \<Rightarrow> bool" where
  "digit_groups [] = False"
| "digit_groups [c] = isdigit c"
| "digit_groups (c # d # r) =
     (isdigit c \<and> (if d = CHR ''_'' then digit_groups r else digit_groups (d # r)))"

definition digit_val :: "char \<Rightarrow> nat" where
  "digit_val c = of_char c - 48"

definition digits_value :: "string \<Rightarrow> nat" where
  "digits_value ds = foldl (\<lambda>n c. if c = CHR ''_'' then n else 10 * n + digit_val c) 0 ds"

definition py_int :: "string \<Rightarrow> int option" where
  "py_int s =
     (case strip s of
        [] \<Rightarrow> None
      | c # r \<Rightarrow>
          (let (sgn, ds) = (if c = CHR ''-'' then (- 1, r)
                            else if c = CHR ''+'' then (1, r) else (1, c # r))
           in if digit_groups ds then Some (sgn * int (digits_value ds)) else None))"

text \<open>\<^verbatim>\<open>str(n)\<close> for a length.\<close>

function str_nat :: "nat \<Rightarrow> string" where
  "str_nat n =
     (if n < 10 then [''0123456789'' ! n]
      else str_nat (n div 10) @ [''0123456789'' ! (n mod 10)])"
  by pat_completeness auto
termination
  by (relation "measure (\<lambda>n. n)") auto

declare str_nat.simps [simp del]

section \<open>Identity resolver and mention rewriter\<close>

type_synonym cache = "string \<rightharpoonup> string"

text \<open>\<^verbatim>\<open>get_display_name\<close>: \<open>jira_user\<close> is the answer of \<^verbatim>\<open>jira.user\<close>, the cache is the
  global \<^verbatim>\<open>user_cache\<close>, passed in and returned.\<close>

definition get_display_name ::
  "(string \<Rightarrow> user result) \<Rightarrow> string \<Rightarrow> cache \<Rightarrow> string \<times> cache" where
  "get_display_name jira_user account_id user_cache =
     (case user_cache account_id of
        Some n \<Rightarrow> (n, user_cache)
      | None \<Rightarrow>
          (case jira_user account_id of
             Inr user_obj \<Rightarrow>
               (let nm = (case displayName user_obj of Some d \<Rightarrow> d | None \<Rightarrow> account_id)
                in (nm, user_cache(account_id \<mapsto> nm)))
           | Inl e \<Rightarrow> (''Unknown User'', user_cache)))"

text \<open>The pattern \<^verbatim>\<open>\[~accountid:([^\]]+)\]\<close> tried at the head of a text: the account id and
  the text after the closing bracket.\<close>

definition match_mention :: "string \<Rightarrow> (string \<times> string) option" where
  "match_mention s =
     (if take 12 s = ''[~accountid:'' then
        (let r = drop 12 s; ident = takeWhile (\<lambda>c. c \<noteq> CHR '']'') r;
             after = dropWhile (\<lambda>c. c \<noteq> CHR '']'') r
         in if ident \<noteq> [] \<and> after \<noteq> [] then Some (ident, tl after) else None)
      else None)"

text \<open>\<^verbatim>\<open>re.sub\<close> with the replacement \<^verbatim>\<open>"@" + get_display_name(id)\<close>, left to right.\<close>

function re_sub_mentions ::
  "(string \<Rightarrow> user result) \<Rightarrow> string \<Rightarrow> cache \<Rightarrow> string \<times> cache" where
  "re_sub_mentions jira_user [] user_cache = ([], user_cache)"
| "re_sub_mentions jira_user (c # cs) user_cache =
     (case match_mention (c # cs) of
        Some (ident, rest) \<Rightarrow>
          (let (nm, cache1) = get_display_name jira_user ident user_cache;
               (out, cache2) = re_sub_mentions jira_user rest cache1
           in (''@'' @ nm @ out, cache2))
      | None \<Rightarrow>
          (let (out, cache2) = re_sub_mentions jira_user cs user_cache
           in (c # out, cache2)))"
  by pat_completeness auto
termination
proof (relation "measure (\<lambda>(u, s, c). length s)")
  fix c :: char and cs :: string and x2 :: "string \<times> string" and x y :: string
    and jira_user :: "string \<Rightarrow> user result" and ya user_cache :: cache
  assume m: "match_mention (c # cs) = Some x2" "(x, y) = x2"
  let ?d = "dropWhile (\<lambda>c. c \<noteq> CHR '']'') (drop 12 (c # cs))"
  have "length ?d \<le> length (drop 12 (c # cs))"
    by (rule length_dropWhile_le)
  moreover from m have "y = tl ?d" and "?d \<noteq> []"
    by (auto simp: match_mention_def Let_def split: if_splits)
  ultimately have "length y < length (c # cs)"
    by (cases ?d) auto
  then show "((jira_user, y, ya), jira_user, c # cs, user_cache)
      \<in> measure (\<lambda>(u, s, c). length s)"
    by simp
qed simp_all

definition resolve_mentions ::
  "(string \<Rightarrow> user result) \<Rightarrow> string \<Rightarrow> cache \<Rightarrow> string \<times> cache" where
  "resolve_mentions jira_user text user_cache =
     (if text = [] then (text, user_cache) else re_sub_mentions jira_user text user_cache)"

section \<open>Conversation assembler\<close>

text \<open>The body of the \<^verbatim>\<open>for\<close> loop of \<^verbatim>\<open>get_ticket_conversation\<close> for one comment:
  the text added to \<^verbatim>\<open>conv\<close> and the cache after the mentions of the body are resolved.
  A comment whose author has neither \<^verbatim>\<open>displayName\<close> nor \<^verbatim>\<open>name\<close> raises
  \<^verbatim>\<open>AttributeError\<close>.\<close>

definition format_comment ::
  "(string \<Rightarrow> user result) \<Rightarrow> comment \<Rightarrow> cache \<Rightarrow> (string \<times> cache) result" where
  "format_comment jira_user c user_cache =
     (let date = hd (split_on CHR ''T'' (created c)) in
      case (case displayName (author c) of
              Some d \<Rightarrow> Inr d
            | None \<Rightarrow> (case name (author c) of
                         Some n \<Rightarrow> Inr n
                       | None \<Rightarrow> Inl (Exception ''object has no attribute name''))) of
        Inl e \<Rightarrow> Inl e
      | Inr author_name \<Rightarrow>
          (let (body1, cache1) = resolve_mentions jira_user (strip (body c)) user_cache
           in Inr (date @ '' - '' @ author_name @ '' commented:'' @ newline @ body1
                     @ newline @ newline, cache1)))"

fun conversation_loop ::
  "(string \<Rightarrow> user result) \<Rightarrow> comment list \<Rightarrow> string \<Rightarrow> cache \<Rightarrow> string result \<times> cache" where
  "conversation_loop jira_user [] conv user_cache = (Inr conv, user_cache)"
| "conversation_loop jira_user (c # cs) conv user_cache =
     (case format_comment jira_user c user_cache of
        Inl e \<Rightarrow> (Inl e, user_cache)
      | Inr (entry, cache1) \<Rightarrow> conversation_loop jira_user cs (conv @ entry) cache1)"

text \<open>\<open>issue\<close> is the answer of \<^verbatim>\<open>jira.issue(ticket_key, expand='comment')\<close>: the comment
  list, or \<open>None\<close> when the comment field has no \<^verbatim>\<open>comments\<close> attribute. Names cached
  before an exception stay cached, as in the global dictionary.\<close>

definition get_ticket_conversation ::
  "(string \<Rightarrow> user result) \<Rightarrow> comment list option result \<Rightarrow> string \<Rightarrow> cache
     \<Rightarrow> string \<times> cache" where
  "get_ticket_conversation jira_user issue ticket_key user_cache =
     (let failed = (\<lambda>e. ''Failed to retrieve comments for Ticket '' @ ticket_key @ '': '' @ str e) in
      case issue of
        Inl e \<Rightarrow> (failed e, user_cache)
      | Inr cf \<Rightarrow>
          (let comments = (case cf of Some cs \<Rightarrow> cs | None \<Rightarrow> []);
               sorted_comments = sort_key created comments
           in case conversation_loop jira_user sorted_comments [] user_cache of
                (Inr conv, cache1) \<Rightarrow> ((if conv \<noteq> [] then conv else ''No Comments''), cache1)
              | (Inl e, cache1) \<Rightarrow> (failed e, cache1)))"

section \<open>Ticket set manager\<close>

subsection \<open>Display order\<close>

text \<open>The inner function \<^verbatim>\<open>sort_key\<close> of \<^verbatim>\<open>update_ticket_list_display\<close>. The tuple
  \<^verbatim>\<open>(locked_flag, prefix, -num)\<close> is compared lexicographically, as Python compares tuples.
  A key that does not split into exactly two parts at \<^verbatim>\<open>-\<close>, or whose second part is not
  an integer, takes the \<^verbatim>\<open>except\<close> branch.\<close>

definition sort_key_ticket :: "string set \<Rightarrow> ticket \<Rightarrow> nat \<times> string \<times> int" where
  "sort_key_ticket locked t =
     (let (prefix, num) =
            (case split_on CHR ''-'' (key t) of
               [p, n] \<Rightarrow> (case py_int n of Some i \<Rightarrow> (p, i) | None \<Rightarrow> (key t, 0))
             | _ \<Rightarrow> (key t, 0));
          locked_flag = (if key t \<in> locked then 0 else 1)
      in (locked_flag, prefix, - num))"

definition display_key :: "string set \<Rightarrow> ticket \<Rightarrow> string" where
  "display_key locked t =
     (if key t \<in> locked \<and> \<not> endswith_star (key t) then key t @ ''*'' else key t)"

definition sorted_tickets :: "jira_ui \<Rightarrow> ticket list" where
  "sorted_tickets s = sort_key (sort_key_ticket (locked_tickets s)) (tickets s)"

definition update_ticket_list_display :: "jira_ui \<Rightarrow> jira_ui" where
  "update_ticket_list_display s =
     s\<lparr>ticket_list := map (display_key (locked_tickets s)) (sorted_tickets s)\<rparr>"

subsection \<open>Startup\<close>

text \<open>\<^verbatim>\<open>JiraUI.__init__\<close>: \<open>locked\<close> lists the loaded locked keys in the order in which the
  loop over the set visits them.\<close>

definition DummyTicket :: "string \<Rightarrow> ticket" where
  "DummyTicket k = \<lparr>key = k, fields_attr = None\<rparr>"

definition add_dummy :: "string \<Rightarrow> ticket list \<Rightarrow> ticket list" where
  "add_dummy k ts = (if \<not> (\<exists>t \<in> set ts. key t = k) then ts @ [DummyTicket k] else ts)"

definition JiraUI_init :: "string list \<Rightarrow> jira_ui" where
  "JiraUI_init locked =
     (let s = \<lparr>current_page = 1, tickets = [], jira = False, locked_tickets = set locked,
               ticket_list = [], text_display = [], messages = []\<rparr>
      in if locked \<noteq> [] then update_ticket_list_display (s\<lparr>tickets := fold add_dummy locked []\<rparr>)
         else s)"

subsection \<open>Remote gateway\<close>

text \<open>\<^verbatim>\<open>self.jira = connect_jira(...)\<close>: \<open>conn\<close> is the outcome of opening the connection.\<close>

definition connect_jira :: "unit result \<Rightarrow> jira_ui \<Rightarrow> jira_ui" where
  "connect_jira conn s =
     (case conn of
        Inr u \<Rightarrow> s\<lparr>jira := True\<rparr>
      | Inl e \<Rightarrow> s\<lparr>jira := False,
                   messages := messages s @
                     [showerror ''Connection Error'' (''Unable to connect to JIRA: '' @ str e)]\<rparr>)"

text \<open>\<open>search_issues start_at max_results\<close> is the answer of \<^verbatim>\<open>jira.search_issues\<close> to the
  query \<^verbatim>\<open>ORDER BY created DESC\<close> with these bounds.\<close>

definition get_recent_tickets ::
  "(int \<Rightarrow> int \<Rightarrow> ticket list result) \<Rightarrow> int \<Rightarrow> int \<Rightarrow> jira_ui \<Rightarrow> ticket list \<times> jira_ui" where
  "get_recent_tickets search_issues start_at max_results s =
     (case search_issues start_at max_results of
        Inr issues \<Rightarrow> (issues, s)
      | Inl e \<Rightarrow> ([], s\<lparr>messages := messages s @
                           [showerror ''Error'' (''Failed to retrieve tickets: '' @ str e)]\<rparr>))"

text \<open>The pattern \<^verbatim>\<open>[A-Za-z]+-\d+\<close> tried at the head of a text, and \<^verbatim>\<open>re.findall\<close>.\<close>

definition match_key :: "string \<Rightarrow> (string \<times> string) option" where
  "match_key s =
     (let letters = takeWhile isalpha s; r1 = dropWhile isalpha s
      in if letters = [] then None
         else (case r1 of
                 [] \<Rightarrow> None
               | c # r2 \<Rightarrow>
                   (let digits = takeWhile isdigit r2
                    in if c = CHR ''-'' \<and> digits \<noteq> []
                       then Some (letters @ ''-'' @ digits, dropWhile isdigit r2)
                       else None)))"

function findall_keys :: "string \<Rightarrow> string list" where
  "findall_keys [] = []"
| "findall_keys (c # cs) =
     (case match_key (c # cs) of
        Some (k, rest) \<Rightarrow> k # findall_keys rest
      | None \<Rightarrow> findall_keys cs)"
  by pat_completeness auto
termination
proof (relation "measure length")
  fix c :: char and cs :: string and x2 :: "string \<times> string" and x y :: string
  assume m: "match_key (c # cs) = Some x2" "(x, y) = x2"
  let ?r1 = "dropWhile isalpha (c # cs)"
  from m obtain d r2 where r1: "?r1 = d # r2" and y: "y = dropWhile isdigit r2"
    by (auto simp: match_key_def Let_def split: if_splits list.splits)
  have "length y \<le> length r2"
    unfolding y by (rule length_dropWhile_le)
  moreover have "length ?r1 \<le> length (c # cs)"
    by (rule length_dropWhile_le)
  ultimately have "length y < length (c # cs)"
    using r1 by simp
  then show "(y, c # cs) \<in> measure length"
    by simp
qed simp_all

text \<open>\<^verbatim>\<open>search_tickets\<close>: \<open>issue\<close> is the answer of \<^verbatim>\<open>jira.issue\<close> for a key; a key whose
  lookup raises is skipped.\<close>

fun search_loop :: "(string \<Rightarrow> ticket result) \<Rightarrow> string list \<Rightarrow> ticket list \<Rightarrow> ticket list" where
  "search_loop issue [] results = results"
| "search_loop issue (k # ks) results =
     (case issue k of
        Inr t \<Rightarrow> search_loop issue ks (results @ [t])
      | Inl e \<Rightarrow> search_loop issue ks results)"

definition search_tickets :: "(string \<Rightarrow> ticket result) \<Rightarrow> string \<Rightarrow> ticket list" where
  "search_tickets issue search_input = search_loop issue (findall_keys search_input) []"

subsection \<open>Fetching a page\<close>

definition append_new :: "string set \<Rightarrow> ticket \<Rightarrow> ticket list \<Rightarrow> ticket list" where
  "append_new existing_keys t ts = (if key t \<notin> existing_keys then ts @ [t] else ts)"

definition fetch_tickets ::
  "unit result \<Rightarrow> (int \<Rightarrow> int \<Rightarrow> ticket list result) \<Rightarrow> jira_ui \<Rightarrow> jira_ui" where
  "fetch_tickets conn search_issues s =
     (let s1 = connect_jira conn s
      in if \<not> jira s1 then s1
         else
           (let start_at = (current_page s1 - 1) * 10;
                (new_tickets, s2) = get_recent_tickets search_issues start_at 10 s1;
                s3 = (if current_page s2 = 1
                      then s2\<lparr>tickets := filter (\<lambda>t. key t \<in> locked_tickets s2) (tickets s2)\<rparr>
                      else s2);
                s4 = (if new_tickets \<noteq> []
                      then (let existing_keys = set (map key (tickets s3))
                            in s3\<lparr>tickets := fold (append_new existing_keys) new_tickets (tickets s3),
                                  current_page := current_page s3 + 1\<rparr>)
                      else s3\<lparr>messages := messages s3 @
                                 [showinfo ''Info'' ''No more tickets available.'']\<rparr>)
            in update_ticket_list_display s4))"

subsection \<open>Searching\<close>

text \<open>A Python dictionary keeps its keys in insertion order; storing under a key already
  present replaces the value where it stands.\<close>

fun dict_set :: "string \<Rightarrow> ticket \<Rightarrow> (string \<times> ticket) list \<Rightarrow> (string \<times> ticket) list" where
  "dict_set k v [] = [(k, v)]"
| "dict_set k v (p # ps) = (if fst p = k then (k, v) # ps else p # dict_set k v ps)"

definition merge_search :: "string set \<Rightarrow> ticket list \<Rightarrow> ticket list \<Rightarrow> ticket list" where
  "merge_search locked ts results =
     (let locked_dict = fold (\<lambda>t d. dict_set (key t) t d) (filter (\<lambda>t. key t \<in> locked) ts) [];
          locked_dict = fold (\<lambda>t d. dict_set (key t) t d) results locked_dict;
          merged = map snd locked_dict;
          non_locked = filter (\<lambda>t. key t \<notin> locked) results;
          merged_keys = set (map key merged)
      in fold (append_new merged_keys) non_locked merged)"

definition search_ticket_action ::
  "unit result \<Rightarrow> string \<Rightarrow> (string \<Rightarrow> ticket result) \<Rightarrow> jira_ui \<Rightarrow> jira_ui" where
  "search_ticket_action conn entry_search issue s =
     (let s1 = (if \<not> jira s then connect_jira conn s else s)
      in if \<not> jira s1 then s1
         else
           (let search_input = strip entry_search
            in if search_input = []
               then s1\<lparr>messages := messages s1 @
                          [showwarning ''Warning'' ''Please enter ticket number(s) to search.'']\<rparr>
               else
                 (let results = search_tickets issue search_input
                  in if results = []
                     then s1\<lparr>messages := messages s1 @
                                [showinfo ''Info'' ''No tickets found matching the search criteria.'']\<rparr>
                     else
                       (let s2 = update_ticket_list_display
                                   (s1\<lparr>tickets := merge_search (locked_tickets s1) (tickets s1) results\<rparr>)
                        in s2\<lparr>text_display :=
                                [(''Found '' @ str_nat (length (tickets s2)) @ '' ticket(s).'' @ newline,
                                  ''header'')]\<rparr>))))"

subsection \<open>Locking\<close>

text \<open>\<^verbatim>\<open>Listbox.get(index)\<close> answers the empty string outside the list.\<close>

definition listbox_get :: "string list \<Rightarrow> nat \<Rightarrow> string" where
  "listbox_get labels index = (if index < length labels then labels ! index else [])"

definition toggle_lock :: "string list \<Rightarrow> nat \<Rightarrow> string set \<Rightarrow> string set" where
  "toggle_lock labels index locked =
     (let ticket_key = rstrip_star (listbox_get labels index)
      in if ticket_key \<in> locked then locked - {ticket_key} else insert ticket_key locked)"

definition lock_selected_tickets :: "nat list \<Rightarrow> jira_ui \<Rightarrow> jira_ui" where
  "lock_selected_tickets selected_indices s =
     (if selected_indices = []
      then s\<lparr>messages := messages s @
                [showwarning ''Warning'' ''Please select at least one ticket to lock/unlock.'']\<rparr>
      else update_ticket_list_display
             (s\<lparr>locked_tickets := fold (toggle_lock (ticket_list s)) selected_indices (locked_tickets s)\<rparr>))"

subsection \<open>Selecting a row\<close>

fun replace_first :: "ticket \<Rightarrow> ticket list \<Rightarrow> ticket list" where
  "replace_first t [] = []"
| "replace_first t (x # xs) = (if key x = key t then t # xs else x # replace_first t xs)"

text \<open>\<^verbatim>\<open>on_ticket_select\<close> up to the start of the background thread: the new state and the
  ticket handed to \<^verbatim>\<open>fetch_details\<close>, \<open>None\<close> when the handler returns early. \<open>selection\<close> is
  \<^verbatim>\<open>curselection()\<close>, the selected rows of the list box.\<close>

definition on_ticket_select ::
  "nat list \<Rightarrow> unit result \<Rightarrow> (string \<Rightarrow> ticket result) \<Rightarrow> jira_ui
     \<Rightarrow> (jira_ui \<times> ticket option) result" where
  "on_ticket_select selection conn issue s =
     (if tickets s = [] then Inr (s, None)
      else if selection = [] then Inr (s, None)
      else
        (let index = hd selection
         in if length (tickets s) \<le> index then Inl (Exception ''list index out of range'')
            else
              (let ticket = tickets s ! index;
                   s1 = (if key ticket \<in> locked_tickets s then connect_jira conn s else s);
                   loading = (\<lambda>s. s\<lparr>text_display := [(''Loading, please wait...'', ''normal'')]\<rparr>)
               in if key ticket \<in> locked_tickets s \<and> \<not> jira s1
                  then Inr (s1\<lparr>messages := messages s1 @
                                 [showerror ''Error''
                                    (''Unable to connect to JIRA, cannot load ticket '' @ key ticket)]\<rparr>,
                            None)
                  else if fields_attr ticket = None
                  then (case (if jira s1 then issue (key ticket)
                              else Inl (Exception ''NoneType object has no attribute issue'')) of
                          Inr t \<Rightarrow> Inr (loading (s1\<lparr>tickets := replace_first t (tickets s1)\<rparr>), Some t)
                        | Inl e \<Rightarrow>
                            Inr (s1\<lparr>messages := messages s1 @
                                      [showerror ''Error''
                                         (''Failed to load ticket '' @ key ticket @ '': '' @ str e)]\<rparr>,
                                 None))
                  else Inr (loading s1, Some ticket))))"

subsection \<open>Operations of a session\<close>

text \<open>One user action together with what the remote service answers during it. An exception
  escaping a handler is reported by the toolkit and leaves the state as the handler left it;
  \<^verbatim>\<open>on_ticket_select\<close> raises before it writes anything.\<close>

datatype op =
  Fetch "unit result" "int \<Rightarrow> int \<Rightarrow> ticket list result"
| Search "unit result" string "string \<Rightarrow> ticket result"
| Lock "nat list"
| Select "nat list" "unit result" "string \<Rightarrow> ticket result"

fun step :: "op \<Rightarrow> jira_ui \<Rightarrow> jira_ui" where
  "step (Fetch conn search_issues) s = fetch_tickets conn search_issues s"
| "step (Search conn entry_search issue) s = search_ticket_action conn entry_search issue s"
| "step (Lock selected_indices) s = lock_selected_tickets selected_indices s"
| "step (Select selection conn issue) s =
     (case on_ticket_select selection conn issue s of Inr (s1, t) \<Rightarrow> s1 | Inl e \<Rightarrow> s)"

definition run :: "op list \<Rightarrow> jira_ui \<Rightarrow> jira_ui" where
  "run ops s = fold step ops s"

text \<open>The pages a session receives hold each issue once: no page answered by the remote
  service has two issues with the same key.\<close>

fun pages_distinct :: "op \<Rightarrow> bool" where
  "pages_distinct (Fetch conn search_issues) =
     (\<forall>start_at. case search_issues start_at 10 of
                    Inr issues \<Rightarrow> distinct (map key issues) | Inl e \<Rightarrow> True)"
| "pages_distinct (Search conn entry_search issue) = True"
| "pages_distinct (Lock selected_indices) = True"
| "pages_distinct (Select selection conn issue) = True"

fun is_fetch_or_search :: "op \<Rightarrow> bool" where
  "is_fetch_or_search (Fetch conn search_issues) = True"
| "is_fetch_or_search (Search conn entry_search issue) = True"
| "is_fetch_or_search (Lock selected_indices) = False"
| "is_fetch_or_search (Select selection conn issue) = False"

text \<open>The union the specification describes for a search: every key of the list once, at the
  place of its first occurrence, holding the last ticket listed under that key.\<close>

definition union_by_key :: "ticket list \<Rightarrow> ticket list" where
  "union_by_key ts =
     map (\<lambda>k. last (filter (\<lambda>t. key t = k) ts)) (rev (remdups (rev (map key ts))))"

section \<open>Properties\<close>

subsection \<open>Unfolding the runtime helpers\<close>

lemmas string_defs = isspace_def isalpha_def isdigit_def rstrip_chars_def strip_def
  rstrip_star_def endswith_star_def digit_val_def digits_value_def py_int_def newline_def

lemmas display_defs = sort_key_ticket_def display_key_def sorted_tickets_def
  update_ticket_list_display_def sort_key_def

subsection \<open>Identity resolution\<close>

text \<open>C9. \<^verbatim>\<open>get_display_name\<close> returns the cached name when the id is cached, whatever the
  remote service would answer. Otherwise it asks the remote service; the name it gets (the
  display name, or the id itself when the user object has none) is stored in the cache and
  returned. When the lookup raises, the result is \<^verbatim>\<open>Unknown User\<close> and the cache is left as it
  was, so that a later call for the same id asks the remote service again and returns its
  name. The result is always a name: no exception leaves the function.\<close>

theorem get_display_name_resolve:
  "(user_cache account_id = Some n \<longrightarrow>
      get_display_name jira_user account_id user_cache = (n, user_cache)) \<and>
   (user_cache account_id = None \<and> jira_user account_id = Inr u \<longrightarrow>
      get_display_name jira_user account_id user_cache =
        ((case displayName u of Some d \<Rightarrow> d | None \<Rightarrow> account_id),
         user_cache(account_id \<mapsto> (case displayName u of Some d \<Rightarrow> d | None \<Rightarrow> account_id)))) \<and>
   (user_cache account_id = None \<and> jira_user account_id = Inl e \<longrightarrow>
      get_display_name jira_user account_id user_cache = (''Unknown User'', user_cache) \<and>
      (\<forall>jira_user2 u2. jira_user2 account_id = Inr u2 \<longrightarrow>
         fst (get_display_name jira_user2 account_id
                (snd (get_display_name jira_user account_id user_cache))) =
           (case displayName u2 of Some d \<Rightarrow> d | None \<Rightarrow> account_id)))"
  by (simp add: get_display_name_def Let_def)


theorem get_display_name_resolve_witness:
  "get_display_name (\<lambda>i. Inl (Exception ''down'')) ''u1'' [''u1'' \<mapsto> ''Alice'']
     = (''Alice'', [''u1'' \<mapsto> ''Alice'']) \<and>
   get_display_name (\<lambda>i. Inr \<lparr>displayName = Some ''Bob'', name = None\<rparr>) ''u2'' Map.empty
     = (''Bob'', [''u2'' \<mapsto> ''Bob'']) \<and>
   get_display_name (\<lambda>i. Inl (Exception ''down'')) ''u3'' Map.empty = (''Unknown User'', Map.empty) \<and>
   fst (get_display_name (\<lambda>i. Inr \<lparr>displayName = Some ''Cy'', name = None\<rparr>) ''u3''
          (snd (get_display_name (\<lambda>i. Inl (Exception ''down'')) ''u3'' Map.empty))) = ''Cy''"
  using get_display_name_resolve [of "[''u1'' \<mapsto> ''Alice'']" "''u1''" "''Alice''"
          "\<lambda>i. Inl (Exception ''down'')"]
        get_display_name_resolve [of Map.empty "''u2''" undefined
          "\<lambda>i. Inr \<lparr>displayName = Some ''Bob'', name = None\<rparr>" "\<lparr>displayName = Some ''Bob'', name = None\<rparr>"]
        get_display_name_resolve [of Map.empty "''u3''" undefined
          "\<lambda>i. Inl (Exception ''down'')" undefined "Exception ''down''"]
  by force

end
